theory Spec2Isabelle
  imports Main
begin

section \<open>The nullable container of \<open>nullable.go\<close>\<close>

text \<open>
  \<open>Nullable[T]\<close> is a struct that embeds \<open>sql.Null[T]\<close>, whose two fields are the value
  \<open>V\<close> and the flag \<open>Valid\<close>. The embedded struct is a field of its own here, so
  \<open>n.V\<close> of the source reads \<open>V (Null n)\<close>.

  A byte slice is a \<open>string\<close> (a list of 8-bit characters). Go's \<open>error\<close> return is an
  \<open>option\<close>: \<open>None\<close> is \<open>nil\<close>. The element type \<open>T\<close> is a type variable; the zero
  value of \<open>T\<close>, which Go takes from the type, is passed to the operations that
  need it as the argument \<open>zero\<close>.
\<close>

type_synonym bytes = string

record 'a sql_Null =
  V :: 'a
  Valid :: bool

record 'a Nullable =
  Null :: "'a sql_Null"

subsection \<open>Construction\<close>

definition NewNullable :: "'a \<Rightarrow> 'a Nullable" where
  "NewNullable val = \<lparr>Null = \<lparr>V = val, Valid = True\<rparr>\<rparr>"

text \<open>\<open>NewNull\<close> sets only \<open>Valid\<close>; the field \<open>V\<close> it leaves out is the zero value.\<close>

definition NewNull :: "'a \<Rightarrow> 'a Nullable" where
  "NewNull zero = \<lparr>Null = \<lparr>V = zero, Valid = False\<rparr>\<rparr>"

subsection \<open>Accessors\<close>

text \<open>
  All accessors have value receivers: they work on a copy and return no container.
  A \<open>*T\<close> is an \<open>option\<close> holding the value pointed to, \<open>None\<close> for \<open>nil\<close>.
\<close>

definition Ptr :: "'a Nullable \<Rightarrow> 'a option" where
  "Ptr n = (if \<not> Valid (Null n) then None else Some (V (Null n)))"

definition ValueOr :: "'a Nullable \<Rightarrow> 'a \<Rightarrow> 'a" where
  "ValueOr n defaultValue = (if \<not> Valid (Null n) then defaultValue else V (Null n))"

definition Value :: "'a \<Rightarrow> 'a Nullable \<Rightarrow> 'a \<times> 'e option" where
  "Value zero n = (if \<not> Valid (Null n) then (zero, None) else (V (Null n), None))"

text \<open>\<open>fmt.Sprintf("%v", _)\<close> at type \<open>T\<close> is the argument \<open>fmt_Sprint\<close>.\<close>

definition String :: "('a \<Rightarrow> string) \<Rightarrow> 'a Nullable \<Rightarrow> string" where
  "String fmt_Sprint n = (if \<not> Valid (Null n) then ''null'' else fmt_Sprint (V (Null n)))"

subsection \<open>JSON\<close>

text \<open>
  \<open>json.Marshal\<close> and \<open>json.Unmarshal\<close> at type \<open>T\<close> are arguments.
  \<open>json_Marshal v\<close> is the pair that \<open>json.Marshal(v)\<close> returns;
  \<open>json_Unmarshal data v\<close> is called with the current content \<open>v\<close> of the
  destination \<open>&n.V\<close> and returns its new content with the error.
\<close>

definition MarshalJSON :: "('a \<Rightarrow> bytes \<times> 'e option) \<Rightarrow> 'a Nullable \<Rightarrow> bytes \<times> 'e option" where
  "MarshalJSON json_Marshal n =
     (if \<not> Valid (Null n) then (''null'', None) else json_Marshal (V (Null n)))"

definition UnmarshalJSON ::
  "(bytes \<Rightarrow> 'a \<Rightarrow> 'a \<times> 'e option) \<Rightarrow> bytes \<Rightarrow> 'a Nullable \<Rightarrow> 'a Nullable \<times> 'e option" where
  "UnmarshalJSON json_Unmarshal data n =
     (if data = ''null'' then (n\<lparr>Null := (Null n)\<lparr>Valid := False\<rparr>\<rparr>, None)
      else
        let n1 = n\<lparr>Null := (Null n)\<lparr>Valid := True\<rparr>\<rparr>;
            (v, err) = json_Unmarshal data (V (Null n1))
        in (n1\<lparr>Null := (Null n1)\<lparr>V := v\<rparr>\<rparr>, err))"

subsection \<open>Storage\<close>

text \<open>
  Modelled from the spec: \<open>Scan\<close> of the embedded \<open>sql.Null[T]\<close>, which belongs to Go's
  \<open>database/sql\<close> and is not among the source files. The spec: a storage-null input sets
  the flag to false and the value to the default of \<open>T\<close>, and succeeds; any other input
  is converted into \<open>T\<close> by the storage interface's conversion rules; success sets the
  flag to true and stores the converted value; failure returns the error, and the state
  of the container is then the one the conversion utility leaves, with no guarantee of
  its own. The conversion is the argument \<open>convert\<close>, called with the input and the
  state before the call: \<open>Inr v\<close> is success with the converted value \<open>v\<close>,
  \<open>Inl (e, left)\<close> is failure with the error \<open>e\<close> and the state \<open>left\<close> behind, which
  nothing constrains. The input \<open>any\<close> is an \<open>option\<close>, \<open>None\<close> for \<open>nil\<close>.
\<close>

definition sql_Null_Scan ::
  "'a \<Rightarrow> ('r \<Rightarrow> 'a sql_Null \<Rightarrow> ('e \<times> 'a sql_Null) + 'a) \<Rightarrow> 'r option \<Rightarrow> 'a sql_Null
     \<Rightarrow> 'a sql_Null \<times> 'e option" where
  "sql_Null_Scan zero convert val n =
     (case val of
        None \<Rightarrow> (n\<lparr>V := zero, Valid := False\<rparr>, None)
      | Some src \<Rightarrow>
          (case convert src n of
             Inr v \<Rightarrow> (n\<lparr>V := v, Valid := True\<rparr>, None)
           | Inl (e, left) \<Rightarrow> (left, Some e)))"

definition Scan ::
  "'a \<Rightarrow> ('r \<Rightarrow> 'a sql_Null \<Rightarrow> ('e \<times> 'a sql_Null) + 'a) \<Rightarrow> 'r option \<Rightarrow> 'a Nullable
     \<Rightarrow> 'a Nullable \<times> 'e option" where
  "Scan zero convert val n =
     (let (null1, err) = sql_Null_Scan zero convert val (Null n)
      in (n\<lparr>Null := null1\<rparr>, err))"

text \<open>The conversion of an input that already has type \<open>T\<close>: it succeeds with the input.\<close>

datatype scan_error = ScanError

definition convert_direct :: "'a \<Rightarrow> 'a sql_Null \<Rightarrow> (scan_error \<times> 'a sql_Null) + 'a" where
  "convert_direct src n = Inr src"

subsection \<open>An element type whose own encoding can be \<open>null\<close>\<close>

text \<open>
  At \<open>T = *bool\<close> a value is a \<open>bool option\<close>, and the zero value is \<open>None\<close> (\<open>nil\<close>).
  \<open>encoding/json\<close> encodes a nil pointer as \<open>null\<close> and any other pointer as the value
  it points to. Its decoder skips the white space of JSON (space, tab, line feed,
  carriage return) around the value; \<open>null\<close> sets the pointer to nil, \<open>true\<close> and
  \<open>false\<close> store a pointer to the value. Every other input is answered here with a
  syntax error and an untouched destination, which is what \<open>encoding/json\<close> does with
  data that is not well-formed JSON. Well-formed JSON of another kind (a number, a
  string, an array, an object) is not covered: the decoder is used below on the three
  tokens, padded or not, and on data that is not well-formed.
\<close>

datatype json_error = SyntaxError

definition isSpace :: "char \<Rightarrow> bool" where
  "isSpace c = (c = CHR '' '' \<or> c = CHR 0x09 \<or> c = CHR 0x0D \<or> c = CHR 0x0A)"

definition trim_space :: "bytes \<Rightarrow> bytes" where
  "trim_space data = rev (dropWhile isSpace (rev (dropWhile isSpace data)))"

definition json_Marshal_ptr_bool :: "bool option \<Rightarrow> bytes \<times> json_error option" where
  "json_Marshal_ptr_bool p =
     (case p of
        None \<Rightarrow> (''null'', None)
      | Some b \<Rightarrow> (if b then ''true'' else ''false'', None))"

definition json_Unmarshal_ptr_bool :: "bytes \<Rightarrow> bool option \<Rightarrow> bool option \<times> json_error option" where
  "json_Unmarshal_ptr_bool data p =
     (let tok = trim_space data in
      if tok = ''null'' then (None, None)
      else if tok = ''true'' then (Some True, None)
      else if tok = ''false'' then (Some False, None)
      else (p, Some SyntaxError))"

subsection \<open>The invariant of the data model\<close>

text \<open>When the flag is false, the value is the zero value of \<open>T\<close>.\<close>

definition zero_when_invalid :: "'a \<Rightarrow> 'a Nullable \<Rightarrow> bool" where
  "zero_when_invalid zero n = (\<not> Valid (Null n) \<longrightarrow> V (Null n) = zero)"

section \<open>Properties\<close>

text \<open>
  C5. For every element type, \<open>MarshalJSON\<close> on the container made by \<open>NewNull\<close> returns
  exactly the 4 bytes \<open>null\<close> and no error, whatever the encoder of \<open>T\<close> is.
\<close>

theorem MarshalJSON_NewNull:
  "MarshalJSON json_Marshal (NewNull zero) = (''null'', None)
   \<and> length (fst (MarshalJSON json_Marshal (NewNull zero))) = 4"
  by (simp add: MarshalJSON_def NewNull_def)

text \<open>
  C7. \<open>Value\<close> never returns an error: on an invalid container it returns the zero value
  of \<open>T\<close> and \<open>nil\<close> (whatever \<open>V\<close> holds), on a valid one the stored value and \<open>nil\<close>.
  At \<open>T = string\<close> the invalid container gives the empty string.
\<close>

theorem Value_no_error:
  "Value zero \<lparr>Null = \<lparr>V = v, Valid = False\<rparr>\<rparr> = (zero, None)
   \<and> Value zero \<lparr>Null = \<lparr>V = v, Valid = True\<rparr>\<rparr> = (v, None)
   \<and> snd (Value zero n) = None
   \<and> Value '''' (NewNull '''') = ('''', None)"
  by (simp add: Value_def NewNull_def)

text \<open>
  C8. \<open>ValueOr\<close> on a container made by \<open>NewNullable v\<close> returns \<open>v\<close> for every default;
  on the container made by \<open>NewNull\<close> it returns the default. The method has a value
  receiver and returns only the value, so the caller's container is untouched.
\<close>

theorem ValueOr_constructed:
  "ValueOr (NewNullable v) d = v \<and> ValueOr (NewNull zero) d = d"
  by (simp add: ValueOr_def NewNullable_def NewNull_def)

text \<open>
  C9. \<open>Ptr\<close> on a container made by \<open>NewNullable v\<close> returns a non-nil pointer to a value
  equal to \<open>v\<close>; on the container made by \<open>NewNull\<close> it returns \<open>nil\<close>.
\<close>

theorem Ptr_constructed:
  "Ptr (NewNullable v) = Some v \<and> Ptr (NewNull zero) = None"
  by (simp add: Ptr_def NewNullable_def NewNull_def)

subsection \<open>Decoding\<close>

lemma UnmarshalJSON_null:
  "UnmarshalJSON json_Unmarshal ''null'' n = (n\<lparr>Null := (Null n)\<lparr>Valid := False\<rparr>\<rparr>, None)"
  by (simp add: UnmarshalJSON_def)

lemma UnmarshalJSON_other:
  assumes "data \<noteq> ''null''"
  shows "UnmarshalJSON json_Unmarshal data n =
           (\<lparr>Null = \<lparr>V = fst (json_Unmarshal data (V (Null n))), Valid = True\<rparr>\<rparr>,
            snd (json_Unmarshal data (V (Null n))))"
  using assms by (simp add: UnmarshalJSON_def Let_def split_beta)

text \<open>
  C1, as the spec states it: decoding \<open>null\<close> resets the value to the zero value of \<open>T\<close>
  from every prior state. It fails at \<open>T = *bool\<close> on the container made by
  \<open>NewNullable\<close> from a pointer to \<open>true\<close>: the \<open>null\<close> branch assigns \<open>Valid\<close> only, and
  the pointer stays.
\<close>

theorem UnmarshalJSON_null_reset_counterexample:
  "V (Null (fst (UnmarshalJSON json_Unmarshal_ptr_bool ''null'' (NewNullable (Some True))))) \<noteq> None"
  by (simp add: UnmarshalJSON_null NewNullable_def)

text \<open>
  C1, amended. For every element type and every prior state, \<open>UnmarshalJSON\<close> on exactly
  the 4 bytes \<open>null\<close> sets \<open>Valid\<close> to false, leaves \<open>V\<close> as it was and returns no
  error; whatever the decoder of \<open>T\<close> is, it is not called.
\<close>

theorem UnmarshalJSON_null_keeps_value:
  "Valid (Null (fst (UnmarshalJSON json_Unmarshal ''null'' n))) = False
   \<and> V (Null (fst (UnmarshalJSON json_Unmarshal ''null'' n))) = V (Null n)
   \<and> snd (UnmarshalJSON json_Unmarshal ''null'' n) = None
   \<and> length ''null'' = 4"
  by (simp add: UnmarshalJSON_null)

text \<open>
  C3. For every element type and every input other than the 4 bytes \<open>null\<close>,
  \<open>UnmarshalJSON\<close> returns the container with \<open>Valid\<close> true and in \<open>V\<close> what the decoder of
  \<open>T\<close> left there, together with the decoder's own error: when the decoder fails with
  \<open>e\<close>, the caller gets \<open>e\<close> and the flag is true.
\<close>

theorem UnmarshalJSON_not_null:
  assumes "data \<noteq> ''null''"
  shows "UnmarshalJSON json_Unmarshal data n =
           (\<lparr>Null = \<lparr>V = fst (json_Unmarshal data (V (Null n))), Valid = True\<rparr>\<rparr>,
            snd (json_Unmarshal data (V (Null n))))
         \<and> (json_Unmarshal data (V (Null n)) = (v, Some e) \<longrightarrow>
              snd (UnmarshalJSON json_Unmarshal data n) = Some e
              \<and> Valid (Null (fst (UnmarshalJSON json_Unmarshal data n))))"
  using assms by (simp add: UnmarshalJSON_other)

theorem UnmarshalJSON_not_null_witness:
  "''nul'' \<noteq> ''null''
   \<and> json_Unmarshal_ptr_bool ''nul'' (V (Null (NewNull None))) = (None, Some SyntaxError)
   \<and> UnmarshalJSON json_Unmarshal_ptr_bool ''nul'' (NewNull None) =
       (\<lparr>Null = \<lparr>V = None, Valid = True\<rparr>\<rparr>, Some SyntaxError)
   \<and> snd (UnmarshalJSON json_Unmarshal_ptr_bool ''nul'' (NewNull None)) = Some SyntaxError
   \<and> Valid (Null (fst (UnmarshalJSON json_Unmarshal_ptr_bool ''nul'' (NewNull None))))"
proof -
  have ne: "''nul'' \<noteq> ''null''" by simp
  have dec: "json_Unmarshal_ptr_bool ''nul'' (V (Null (NewNull None))) = (None, Some SyntaxError)"
    by (simp add: json_Unmarshal_ptr_bool_def trim_space_def isSpace_def NewNull_def)
  from UnmarshalJSON_not_null [OF ne, of json_Unmarshal_ptr_bool "NewNull None" None SyntaxError]
  show ?thesis using ne dec by simp
qed

lemma padded_null_differs:
  assumes "pre \<noteq> [] \<or> post \<noteq> []"
  shows "pre @ ''null'' @ post \<noteq> ''null''"
proof
  assume "pre @ ''null'' @ post = ''null''"
  then have "length (pre @ ''null'' @ post) = length ''null''" by (rule arg_cong)
  then have "length pre + length post = 0" by simp
  with assms show False by simp
qed

text \<open>
  C10. The test for \<open>null\<close> compares the whole input with the 4 bytes. An input that
  carries anything before or after the token, such as the JSON null with a leading
  space, takes the other branch: the container comes back with \<open>Valid\<close> true. At
  \<open>T = *bool\<close> the input \<open>null\<close> after one space gives a valid container holding nil.
\<close>

theorem UnmarshalJSON_padded_null_valid:
  assumes "pre \<noteq> [] \<or> post \<noteq> []"
  shows "Valid (Null (fst (UnmarshalJSON json_Unmarshal (pre @ ''null'' @ post) n)))"
  using padded_null_differs [OF assms] by (simp add: UnmarshalJSON_other)

theorem UnmarshalJSON_padded_null_valid_witness:
  "'' '' \<noteq> []
   \<and> '' '' @ ''null'' @ [] = '' null''
   \<and> Valid (Null (fst (UnmarshalJSON json_Unmarshal_ptr_bool '' null'' (NewNull None))))
   \<and> UnmarshalJSON json_Unmarshal_ptr_bool '' null'' (NewNullable (Some True))
       = (NewNullable None, None)"
proof -
  have pad: "'' '' \<noteq> [] \<or> ([]::string) \<noteq> []" by simp
  have dec: "json_Unmarshal_ptr_bool '' null'' p = (None, None)" for p
    by (simp add: json_Unmarshal_ptr_bool_def trim_space_def isSpace_def)
  have full: "UnmarshalJSON json_Unmarshal_ptr_bool '' null'' (NewNullable (Some True))
       = (NewNullable None, None)"
    by (simp add: UnmarshalJSON_other dec NewNullable_def)
  from UnmarshalJSON_padded_null_valid [OF pad, of json_Unmarshal_ptr_bool "NewNull None"]
  show ?thesis using full by simp
qed

subsection \<open>Round trip\<close>

text \<open>
  C4, as the spec states it: encoding a container made by \<open>NewNullable v\<close> and decoding
  the bytes into a fresh container gives \<open>NewNullable v\<close> back, for every \<open>T\<close> and \<open>v\<close>.
  It fails at \<open>T = *bool\<close> and \<open>v = nil\<close>: the codec of \<open>T\<close> itself round-trips, the
  valid container encodes to \<open>null\<close>, and \<open>null\<close> decodes to an invalid container.
\<close>

theorem roundtrip_nil_pointer_counterexample:
  "json_Unmarshal_ptr_bool (fst (json_Marshal_ptr_bool None)) None = (None, None)
   \<and> MarshalJSON json_Marshal_ptr_bool (NewNullable None) = (''null'', None)
   \<and> UnmarshalJSON json_Unmarshal_ptr_bool
        (fst (MarshalJSON json_Marshal_ptr_bool (NewNullable None))) (NewNull None)
      = (NewNull None, None)
   \<and> NewNull None \<noteq> (NewNullable None :: bool option Nullable)"
  by (simp add: MarshalJSON_def UnmarshalJSON_null json_Marshal_ptr_bool_def
      json_Unmarshal_ptr_bool_def trim_space_def isSpace_def NewNullable_def NewNull_def)

text \<open>
  C4, amended. For every \<open>T\<close> and every \<open>v\<close> that the encoder of \<open>T\<close> turns without error
  into bytes other than \<open>null\<close>, and that the decoder of \<open>T\<close> reads back from those bytes
  into a zero destination, encoding \<open>NewNullable v\<close> and decoding into a fresh container
  gives \<open>NewNullable v\<close> and no error. For every \<open>T\<close>, with no condition on its codec,
  encoding the container made by \<open>NewNull\<close> and decoding into a fresh container gives
  that container and no error.
\<close>

theorem roundtrip:
  "(json_Marshal v = (data, None) \<and> data \<noteq> ''null'' \<and> json_Unmarshal data zero = (v, None) \<longrightarrow>
      UnmarshalJSON json_Unmarshal (fst (MarshalJSON json_Marshal (NewNullable v))) (NewNull zero)
        = (NewNullable v, None))
   \<and> UnmarshalJSON json_Unmarshal (fst (MarshalJSON json_Marshal (NewNull zero))) (NewNull zero)
        = (NewNull zero, None)"
proof (intro conjI impI)
  assume h: "json_Marshal v = (data, None) \<and> data \<noteq> ''null'' \<and> json_Unmarshal data zero = (v, None)"
  then have enc: "fst (MarshalJSON json_Marshal (NewNullable v)) = data"
    by (simp add: MarshalJSON_def NewNullable_def)
  show "UnmarshalJSON json_Unmarshal (fst (MarshalJSON json_Marshal (NewNullable v))) (NewNull zero)
          = (NewNullable v, None)"
    unfolding enc using h
    by (simp add: UnmarshalJSON_other NewNull_def NewNullable_def)
next
  show "UnmarshalJSON json_Unmarshal (fst (MarshalJSON json_Marshal (NewNull zero))) (NewNull zero)
          = (NewNull zero, None)"
    by (simp add: MarshalJSON_def UnmarshalJSON_null NewNull_def)
qed

theorem roundtrip_witness:
  "json_Marshal_ptr_bool (Some True) = (''true'', None)
   \<and> ''true'' \<noteq> ''null''
   \<and> json_Unmarshal_ptr_bool ''true'' None = (Some True, None)
   \<and> UnmarshalJSON json_Unmarshal_ptr_bool
        (fst (MarshalJSON json_Marshal_ptr_bool (NewNullable (Some True)))) (NewNull None)
      = (NewNullable (Some True), None)
   \<and> UnmarshalJSON json_Unmarshal_ptr_bool
        (fst (MarshalJSON json_Marshal_ptr_bool (NewNull None))) (NewNull None)
      = (NewNull None, None)"
proof -
  have enc: "json_Marshal_ptr_bool (Some True) = (''true'', None)"
    by (simp add: json_Marshal_ptr_bool_def)
  have ne: "''true'' \<noteq> ''null''" by simp
  have dec: "json_Unmarshal_ptr_bool ''true'' None = (Some True, None)"
    by (simp add: json_Unmarshal_ptr_bool_def trim_space_def isSpace_def)
  from roundtrip [of json_Marshal_ptr_bool "Some True" "''true''" json_Unmarshal_ptr_bool None]
  show ?thesis using enc ne dec by simp
qed

subsection \<open>Scanning\<close>

lemma Scan_nil:
  "Scan zero convert None n = (\<lparr>Null = \<lparr>V = zero, Valid = False\<rparr>\<rparr>, None)"
  by (simp add: Scan_def sql_Null_Scan_def)

lemma Scan_converted:
  assumes "convert src (Null n) = Inr v"
  shows "Scan zero convert (Some src) n = (\<lparr>Null = \<lparr>V = v, Valid = True\<rparr>\<rparr>, None)"
  using assms by (simp add: Scan_def sql_Null_Scan_def)

lemma Scan_failed:
  assumes "convert src (Null n) = Inl (e, left)"
  shows "Scan zero convert (Some src) n = (\<lparr>Null = left\<rparr>, Some e)"
  using assms by (simp add: Scan_def sql_Null_Scan_def)

text \<open>
  C6. For every element type and every prior state, \<open>Scan\<close> with a nil input sets \<open>Valid\<close>
  to false and \<open>V\<close> to the zero value of \<open>T\<close>, and returns no error: the result is the
  container that \<open>NewNull\<close> makes.
\<close>

theorem Scan_nil_invalid:
  "Scan zero convert None n = (NewNull zero, None)
   \<and> Valid (Null (fst (Scan zero convert None n))) = False
   \<and> V (Null (fst (Scan zero convert None n))) = zero
   \<and> snd (Scan zero convert None n) = None"
  by (simp add: Scan_nil NewNull_def)

subsection \<open>The invariant\<close>

text \<open>
  C2, as the spec states it: every operation preserves that an invalid container holds
  the zero value. It fails at \<open>T = *bool\<close>: the container made by \<open>NewNullable\<close> from a
  pointer to \<open>true\<close> satisfies the invariant, and after \<open>UnmarshalJSON\<close> of \<open>null\<close> it is
  invalid and still holds the pointer.
\<close>

theorem invariant_UnmarshalJSON_null_counterexample:
  "zero_when_invalid None (NewNullable (Some True))
   \<and> \<not> zero_when_invalid None
         (fst (UnmarshalJSON json_Unmarshal_ptr_bool ''null'' (NewNullable (Some True))))"
  by (simp add: zero_when_invalid_def UnmarshalJSON_null NewNullable_def)

text \<open>
  C2, amended. For every element type the invariant holds after \<open>NewNullable\<close> and
  \<open>NewNull\<close>, holds after every \<open>Scan\<close> that returns no error (a nil input or a
  successful conversion), and holds after every \<open>UnmarshalJSON\<close> of an input other than
  \<open>null\<close>; \<open>UnmarshalJSON\<close> of \<open>null\<close> keeps it when the value held before the call is
  the zero value, as in a fresh container. Nothing is said of the state after a \<open>Scan\<close>
  that returns an error. The other methods have value receivers and change no
  container.
\<close>

theorem invariant_kept:
  "zero_when_invalid zero (NewNullable v)
   \<and> zero_when_invalid zero (NewNull zero)
   \<and> (snd (Scan zero convert val n) = None \<longrightarrow> zero_when_invalid zero (fst (Scan zero convert val n)))
   \<and> (data \<noteq> ''null'' \<longrightarrow> zero_when_invalid zero (fst (UnmarshalJSON json_Unmarshal data n)))
   \<and> (V (Null n) = zero \<longrightarrow> zero_when_invalid zero (fst (UnmarshalJSON json_Unmarshal ''null'' n)))"
proof -
  have scan: "zero_when_invalid zero (fst (Scan zero convert val n))"
    if ok: "snd (Scan zero convert val n) = None"
  proof (cases val)
    case None
    then show ?thesis by (simp add: zero_when_invalid_def Scan_nil)
  next
    case (Some src)
    show ?thesis
    proof (cases "convert src (Null n)")
      case (Inl failure)
      obtain e left where "failure = (e, left)" by (cases failure)
      with Inl Some ok show ?thesis by (simp add: Scan_failed)
    next
      case (Inr v')
      with Some show ?thesis by (simp add: zero_when_invalid_def Scan_converted)
    qed
  qed
  show ?thesis
    using scan
    by (simp add: zero_when_invalid_def NewNullable_def NewNull_def
        UnmarshalJSON_null UnmarshalJSON_other)
qed

theorem invariant_kept_witness:
  "''true'' \<noteq> ''null''
   \<and> V (Null (NewNull None)) = (None :: bool option)
   \<and> \<not> Valid (Null (fst (UnmarshalJSON json_Unmarshal_ptr_bool ''null'' (NewNull None))))
   \<and> snd (Scan None convert_direct (None :: bool option option) (NewNullable (Some True))) = None
   \<and> \<not> Valid (Null (fst (Scan None convert_direct (None :: bool option option)
            (NewNullable (Some True)))))
   \<and> snd (Scan None convert_direct (Some (Some True)) (NewNull None)) = None
   \<and> zero_when_invalid None (NewNullable (Some True))
   \<and> zero_when_invalid None (NewNull (None :: bool option))
   \<and> zero_when_invalid None
       (fst (Scan None convert_direct (None :: bool option option) (NewNullable (Some True))))
   \<and> zero_when_invalid None (fst (Scan None convert_direct (Some (Some True)) (NewNull None)))
   \<and> zero_when_invalid None (fst (UnmarshalJSON json_Unmarshal_ptr_bool ''true'' (NewNull None)))
   \<and> zero_when_invalid None (fst (UnmarshalJSON json_Unmarshal_ptr_bool ''null'' (NewNull None)))"
proof -
  have z: "V (Null (NewNull None)) = (None :: bool option)" by (simp add: NewNull_def)
  have inv: "\<not> Valid (Null (fst (UnmarshalJSON json_Unmarshal_ptr_bool ''null'' (NewNull None))))"
    by (simp add: UnmarshalJSON_null)
  have nil: "Scan None convert_direct (None :: bool option option) (NewNullable (Some True))
      = (NewNull None, None)"
    by (simp add: Scan_nil NewNull_def)
  have conv: "Scan None convert_direct (Some (Some True)) (NewNull None)
      = (NewNullable (Some True), None)"
    by (simp add: Scan_converted convert_direct_def NewNullable_def)
  from invariant_kept [of None "Some True" convert_direct "None :: bool option option"
      "NewNullable (Some True)" "''true''" json_Unmarshal_ptr_bool]
    invariant_kept [of None "Some True" convert_direct "Some (Some True)"
      "NewNull None" "''true''" json_Unmarshal_ptr_bool]
  show ?thesis using z inv nil conv by (simp add: NewNull_def)
qed

end
